theory Spec2Isabelle
  imports Complex_Main "HOL-Library.Extended_Nat" "HOL-Library.Multiset"
begin

section \<open>Retrieval core of the study chatbot: the enhanced vector database\<close>

text \<open>
  The development embeds the class \<open>EnhancedVectorDatabase\<close> (the module the document
  service loads as \<open>enhancedVectorDB_simplified\<close>): feature extraction, the composite
  similarity score, session-scoped search, the text-search fallback, cross-document
  grouping, context assembly, session statistics and session deletion.

  Conventions of the embedding.
  \<^item> A JavaScript number is a \<open>real\<close>: sums, products, quotients and square roots are
    exact. Counts and lengths are \<open>nat\<close>, the sentiment score is an \<open>int\<close>. The one
    place where the source produces \<open>NaN\<close> on well-typed input (a quotient \<open>0 / 0\<close>) is
    modelled with an \<open>option\<close>.
  \<^item> A string is a list of 8-bit characters; the text is taken to be ASCII, so that
    \<open>toLowerCase\<close> changes exactly \<open>A\<close>..\<open>Z\<close>, \<open>\s\<close> is one of six control or blank
    characters and \<open>\w\<close> is a letter, a digit or the underscore.
  \<^item> A plain object used as a counter and a \<open>Map\<close> are association lists in insertion
    order. Tokens are taken not to name a member of \<open>Object.prototype\<close>
    (\<open>constructor\<close>, \<open>__proto__\<close>), for which \<open>obj[word] || 0\<close> is not a number.
  \<^item> The packages \<open>natural\<close> (Porter stemmer), \<open>stopword\<close>, \<open>keyword-extractor\<close> and
    \<open>string-similarity\<close> are not part of the repository: their functions are parameters.
\<close>

subsection \<open>Strings\<close>

definition toLowerChar :: "char \<Rightarrow> char" where
  "toLowerChar c =
     (case map_of (zip ''ABCDEFGHIJKLMNOPQRSTUVWXYZ'' ''abcdefghijklmnopqrstuvwxyz'') c of
        Some l \<Rightarrow> l
      | None \<Rightarrow> c)"

definition toLowerCase :: "string \<Rightarrow> string" where
  "toLowerCase s = map toLowerChar s"

text \<open>The character classes \<open>\s\<close>, \<open>\w\<close> and \<open>\d\<close> of the regular expressions.\<close>

definition is_space :: "char \<Rightarrow> bool" where
  "is_space c = (c \<in> set [CHR 0x09, CHR 0x0A, CHR 0x0B, CHR 0x0C, CHR 0x0D, CHR '' ''])"

definition is_digit :: "char \<Rightarrow> bool" where
  "is_digit c = (c \<in> set ''0123456789'')"

definition is_word :: "char \<Rightarrow> bool" where
  "is_word c =
     (c \<in> set ''abcdefghijklmnopqrstuvwxyzABCDEFGHIJKLMNOPQRSTUVWXYZ0123456789_'')"

text \<open>
  \<open>s.split(re)\<close> for a regular expression \<open>re\<close> that matches the maximal non-empty runs
  of the characters satisfying \<open>sep\<close> (\<open>/\s+/\<close>, \<open>/[.!?]+/\<close>). A separator at either end
  leaves an empty string there, and the empty string splits into one empty string.
  The flag says that the previous character was a separator; \<open>cur\<close> is the piece being
  read, reversed.
\<close>

primrec split_run :: "(char \<Rightarrow> bool) \<Rightarrow> bool \<Rightarrow> string \<Rightarrow> string \<Rightarrow> string list" where
  "split_run sep in_sep cur [] = [rev cur]"
| "split_run sep in_sep cur (c # cs) =
     (if sep c
      then (if in_sep then split_run sep True cur cs
            else rev cur # split_run sep True [] cs)
      else split_run sep False (c # cur) cs)"

definition split_ws :: "string \<Rightarrow> string list" where
  "split_ws s = split_run is_space False [] s"

definition trim :: "string \<Rightarrow> string" where
  "trim s = rev (dropWhile is_space (rev (dropWhile is_space s)))"

text \<open>\<open>s.replace(/\s+/g, ' ')\<close>: every maximal run of white space becomes one blank.\<close>

primrec collapse_ws :: "bool \<Rightarrow> string \<Rightarrow> string" where
  "collapse_ws in_sep [] = []"
| "collapse_ws in_sep (c # cs) =
     (if is_space c
      then (if in_sep then collapse_ws True cs else CHR '' '' # collapse_ws True cs)
      else c # collapse_ws False cs)"

fun startsWith :: "string \<Rightarrow> string \<Rightarrow> bool" where
  "startsWith s [] = True"
| "startsWith [] (p # ps) = False"
| "startsWith (c # cs) (p # ps) = (c = p \<and> startsWith cs ps)"

text \<open>\<open>s.includes(t)\<close>, which is also what an alternative of plain words tests.\<close>

fun includes_str :: "string \<Rightarrow> string \<Rightarrow> bool" where
  "includes_str [] t = (t = [])"
| "includes_str (c # cs) t = (startsWith (c # cs) t \<or> includes_str cs t)"

definition join :: "string \<Rightarrow> string list \<Rightarrow> string" where
  "join sep xs = (case xs of [] \<Rightarrow> [] | y # ys \<Rightarrow> y @ concat (map (\<lambda>z. sep @ z) ys))"

text \<open>The decimal numeral of a number, as a template literal prints an array index.\<close>

fun show_nat :: "nat \<Rightarrow> string" where
  "show_nat n =
     (if n < 10 then [''0123456789'' ! n]
      else show_nat (n div 10) @ [''0123456789'' ! (n mod 10)])"

declare show_nat.simps [simp del]

text \<open>
  The elements of \<open>new Set(xs)\<close> in iteration order: the first occurrence of each element
  stays. \<open>seen\<close> holds the elements met so far.
\<close>

primrec uniq_from :: "'a list \<Rightarrow> 'a list \<Rightarrow> 'a list" where
  "uniq_from seen [] = []"
| "uniq_from seen (x # xs) =
     (if x \<in> set seen then uniq_from seen xs else x # uniq_from (x # seen) xs)"

definition uniq :: "'a list \<Rightarrow> 'a list" where
  "uniq xs = uniq_from [] xs"

text \<open>
  \<open>xs.slice(0, limit)\<close> for an integer \<open>limit\<close>: a negative end counts from the end of
  the array.
\<close>

definition slice0 :: "'a list \<Rightarrow> int \<Rightarrow> 'a list" where
  "slice0 xs limit =
     (if 0 \<le> limit then take (nat limit) xs else take (length xs - nat (- limit)) xs)"

text \<open>\<open>Math.round\<close>: the nearest integer, a half rounding up.\<close>

definition math_round :: "real \<Rightarrow> real" where
  "math_round x = of_int \<lfloor>x + 1 / 2\<rfloor>"

subsection \<open>The external text libraries\<close>

text \<open>
  \<open>stem\<close> is \<open>natural.PorterStemmer.stem\<close>, \<open>removeStopwords\<close> is the function of that
  name applied to the English list \<open>eng\<close>, \<open>keyword_extract\<close> is \<open>keyword.extract\<close> with
  the options the source passes (\<open>None\<close> when it throws), and \<open>compareTwoStrings\<close> is the
  Dice coefficient of \<open>string-similarity\<close>.
\<close>

record text_libs =
  stem :: "string \<Rightarrow> string"
  removeStopwords :: "string list \<Rightarrow> string list"
  keyword_extract :: "string \<Rightarrow> string list option"
  compareTwoStrings :: "string \<Rightarrow> string \<Rightarrow> real"

subsection \<open>Feature records\<close>

type_synonym freq_vec = "(string \<times> nat) list"

text \<open>\<open>obj[word] = (obj[word] || 0) + 1\<close>: a new key goes to the end.\<close>

primrec bump :: "freq_vec \<Rightarrow> string \<Rightarrow> freq_vec" where
  "bump [] w = [(w, 1)]"
| "bump (e # es) w = (if fst e = w then (w, snd e + 1) # es else e # bump es w)"

definition countWords :: "string list \<Rightarrow> freq_vec" where
  "countWords ws = foldl bump [] ws"

record semantic_vec =
  hasQuestions :: bool
  hasNumbers :: bool
  hasDefinitions :: bool
  hasExamples :: bool
  hasComparisons :: bool
  hasProcess :: bool
  hasCausal :: bool
  sentiment :: int

record text_embedding =
  tfidf :: freq_vec
  wordFreq :: freq_vec
  semantic :: semantic_vec
  embKeywords :: "string list"
  textLength :: nat
  wordCount :: nat
  avgWordLength :: real

definition preprocessText :: "string \<Rightarrow> string" where
  "preprocessText t =
     trim (collapse_ws False
       (map (\<lambda>c. if is_word c \<or> is_space c then c else CHR '' '') (toLowerCase t)))"

definition createTfidfVector :: "'z text_libs_scheme \<Rightarrow> string \<Rightarrow> freq_vec" where
  "createTfidfVector L t =
     (let words = split_ws (preprocessText t);
          stemmed = map (stem L) words;
          cleaned = removeStopwords L stemmed
      in countWords cleaned)"

definition createWordFrequencyVector :: "'z text_libs_scheme \<Rightarrow> string list \<Rightarrow> freq_vec" where
  "createWordFrequencyVector L words =
     (let cleaned = removeStopwords L words
      in countWords (map (\<lambda>w. stem L (toLowerCase w)) cleaned))"

definition calculateSimpleSentiment :: "string \<Rightarrow> int" where
  "calculateSimpleSentiment t =
     (let positive = [''good'', ''great'', ''excellent'', ''effective'', ''successful'',
                      ''important'', ''significant''];
          negative = [''bad'', ''poor'', ''failed'', ''problem'', ''issue'', ''difficult'',
                      ''challenge''];
          words = split_ws (toLowerCase t)
      in foldl (\<lambda>score w.
                  (let s1 = (if w \<in> set positive then score + 1 else score)
                   in if w \<in> set negative then s1 - 1 else s1))
           0 words)"

definition test_any :: "string list \<Rightarrow> string \<Rightarrow> bool" where
  "test_any alts t = (\<exists>a \<in> set alts. includes_str t a)"

definition createSemanticVector :: "string \<Rightarrow> semantic_vec" where
  "createSemanticVector t =
     \<lparr> hasQuestions = (CHR ''?'' \<in> set t),
       hasNumbers = (\<exists>c \<in> set t. is_digit c),
       hasDefinitions =
         test_any [''is'', ''are'', ''means'', ''refers to'', ''defined as''] (toLowerCase t),
       hasExamples =
         test_any [''example'', ''such as'', ''for instance'', ''including''] (toLowerCase t),
       hasComparisons =
         test_any [''compare'', ''contrast'', ''versus'', ''different'', ''similar'']
           (toLowerCase t),
       hasProcess =
         test_any [''step'', ''process'', ''method'', ''procedure'', ''algorithm'']
           (toLowerCase t),
       hasCausal =
         test_any [''because'', ''since'', ''due to'', ''caused by'', ''result'']
           (toLowerCase t),
       sentiment = calculateSimpleSentiment t \<rparr>"

subsection \<open>Keywords\<close>

text \<open>
  The order in which \<open>Object.entries\<close> lists the keys of a plain object: first the keys
  that are array indices (a decimal numeral without leading zero, below \<open>2^32 - 1\<close>) by
  increasing value, then the other keys by insertion.
\<close>

definition digits_value :: "string \<Rightarrow> nat" where
  "digits_value s =
     foldl (\<lambda>n c. 10 * n + length (takeWhile (\<lambda>d. d \<noteq> c) ''0123456789'')) 0 s"

definition is_array_index :: "string \<Rightarrow> bool" where
  "is_array_index s =
     (s \<noteq> [] \<and> (\<forall>c \<in> set s. is_digit c) \<and> (s = ''0'' \<or> hd s \<noteq> CHR ''0'') \<and>
      length s \<le> 10 \<and> digits_value s < 4294967295)"

definition object_entries :: "(string \<times> 'a) list \<Rightarrow> (string \<times> 'a) list" where
  "object_entries es =
     sort_key (\<lambda>e. digits_value (fst e)) (filter (\<lambda>e. is_array_index (fst e)) es) @
     filter (\<lambda>e. \<not> is_array_index (fst e)) es"

definition fallbackKeywordExtraction :: "'z text_libs_scheme \<Rightarrow> string \<Rightarrow> string list" where
  "fallbackKeywordExtraction L t =
     (let words = split_ws (preprocessText t);
          cleaned = removeStopwords L words;
          stemmed = map (stem L) cleaned;
          wordFreq = countWords (filter (\<lambda>w. length w > 3) stemmed)
      in map fst (take 10 (sort_key (\<lambda>e. - int (snd e)) (object_entries wordFreq))))"

text \<open>The \<open>catch\<close> branch is the case \<open>None\<close> of the library call.\<close>

definition extractChunkKeywords :: "'z text_libs_scheme \<Rightarrow> string \<Rightarrow> string list" where
  "extractChunkKeywords L t =
     (case keyword_extract L t of
        Some extraction_result \<Rightarrow> take 10 extraction_result
      | None \<Rightarrow> fallbackKeywordExtraction L t)"

definition extractDocumentKeywords :: "'z text_libs_scheme \<Rightarrow> string \<Rightarrow> string list" where
  "extractDocumentKeywords L t = take 20 (extractChunkKeywords L t)"

definition createWordVectors :: "'z text_libs_scheme \<Rightarrow> string \<Rightarrow> freq_vec" where
  "createWordVectors L t =
     countWords (map (stem L) (filter (\<lambda>w. length w > 2) (split_ws (preprocessText t))))"

text \<open>
  \<open>sum / words.length || 0\<close>: without words the quotient is \<open>NaN\<close>, which \<open>||\<close> replaces
  by 0.
\<close>

definition createTextEmbedding :: "'z text_libs_scheme \<Rightarrow> string \<Rightarrow> text_embedding" where
  "createTextEmbedding L t =
     (let cleaned = preprocessText t;
          words = filter (\<lambda>w. length w > 2) (split_ws cleaned)
      in \<lparr> tfidf = createTfidfVector L t,
           wordFreq = createWordFrequencyVector L words,
           semantic = createSemanticVector t,
           embKeywords = extractChunkKeywords L t,
           textLength = length t,
           wordCount = length words,
           avgWordLength =
             (if words = [] then 0
              else real (sum_list (map length words)) / real (length words)) \<rparr>)"

definition createEnhancedEmbeddings ::
  "'z text_libs_scheme \<Rightarrow> string list \<Rightarrow> text_embedding list" where
  "createEnhancedEmbeddings L texts = map (createTextEmbedding L) texts"

subsection \<open>The similarity engine\<close>

text \<open>\<open>vec[key] || 0\<close>.\<close>

definition vec_get :: "freq_vec \<Rightarrow> string \<Rightarrow> real" where
  "vec_get v k = (case map_of v k of Some n \<Rightarrow> real n | None \<Rightarrow> 0)"

definition calculateTfidfSimilarity :: "freq_vec \<Rightarrow> freq_vec \<Rightarrow> real" where
  "calculateTfidfSimilarity vec1 vec2 =
     (let keys1 = map fst vec1;
          keys2 = map fst vec2;
          intersection = filter (\<lambda>key. key \<in> set keys2) keys1
      in if length intersection = 0 then 0
         else
           (let allKeys = uniq (keys1 @ keys2);
                dotProduct = sum_list (map (\<lambda>key. vec_get vec1 key * vec_get vec2 key) allKeys);
                norm1 = sum_list (map (\<lambda>key. vec_get vec1 key * vec_get vec1 key) allKeys);
                norm2 = sum_list (map (\<lambda>key. vec_get vec2 key * vec_get vec2 key) allKeys)
            in if norm1 = 0 \<or> norm2 = 0 then 0
               else dotProduct / (sqrt norm1 * sqrt norm2)))"

definition calculateVectorSimilarity :: "freq_vec \<Rightarrow> freq_vec \<Rightarrow> real" where
  "calculateVectorSimilarity vec1 vec2 = calculateTfidfSimilarity vec1 vec2"

definition calculateKeywordSimilarity :: "string list \<Rightarrow> string list \<Rightarrow> real" where
  "calculateKeywordSimilarity keywords1 keywords2 =
     (if keywords1 = [] \<or> keywords2 = [] then 0
      else
        (let set1 = uniq (map toLowerCase keywords1);
             set2 = uniq (map toLowerCase keywords2);
             intersection = filter (\<lambda>k. k \<in> set set2) set1;
             union = uniq (set1 @ set2)
         in real (length intersection) / real (length union)))"

text \<open>
  The features of a semantic vector whose value is a boolean are the seven flags, in
  both records, so \<open>total\<close> is 7; the sentiment is a number in both, so the first
  \<open>return\<close> is the one taken.
\<close>

definition flag_list :: "semantic_vec \<Rightarrow> bool list" where
  "flag_list s =
     [hasQuestions s, hasNumbers s, hasDefinitions s, hasExamples s, hasComparisons s,
      hasProcess s, hasCausal s]"

definition calculateSemanticSimilarity :: "semantic_vec \<Rightarrow> semantic_vec \<Rightarrow> real" where
  "calculateSemanticSimilarity sem1 sem2 =
     (let total = length (flag_list sem1);
          matches = length (filter (\<lambda>(a, b). a = b) (zip (flag_list sem1) (flag_list sem2)));
          sentimentSim = 1 - \<bar>real_of_int (sentiment sem1 - sentiment sem2)\<bar> / 10
      in if total > 0 then (real matches / real total + sentimentSim) / 2 else sentimentSim)"

definition calculateEnhancedSimilarity :: "text_embedding \<Rightarrow> text_embedding \<Rightarrow> real" where
  "calculateEnhancedSimilarity queryEmb docEmb =
     (let tfidfSim = calculateTfidfSimilarity (tfidf queryEmb) (tfidf docEmb);
          wordFreqSim = calculateVectorSimilarity (wordFreq queryEmb) (wordFreq docEmb);
          keywordSim = calculateKeywordSimilarity (embKeywords queryEmb) (embKeywords docEmb);
          semanticSim = calculateSemanticSimilarity (semantic queryEmb) (semantic docEmb);
          totalSimilarity = tfidfSim * 0.4 + wordFreqSim * 0.3 + keywordSim * 0.2 + semanticSim * 0.1;
          weights = 0.4 + 0.3 + 0.2 + 0.1
      in if weights > 0 then totalSimilarity / weights else 0)"

subsection \<open>The chunk store\<close>

record doc_metadata =
  filename :: string

record chunk_core =
  documentId :: string
  chunkIndex :: nat
  chunkText :: string
  metadata :: "doc_metadata option"

record chunk_entry = chunk_core +
  embedding :: text_embedding
  chunkKeywords :: "string list"
  vectors :: freq_vec

record complexity_stats =
  complAvgWordLength :: real
  lexicalDiversity :: real
  readabilityScore :: real

text \<open>
  With an empty chunk list the two averages divide by zero: the joined text is empty,
  it splits into one (empty) word and no sentence, so \<open>avgWordsPerChunk\<close> is
  \<open>Infinity\<close> and \<open>avgSentencesPerChunk\<close> is \<open>NaN\<close> (\<open>None\<close>).
\<close>

record doc_statistics =
  totalChunks :: nat
  totalWords :: nat
  totalSentences :: nat
  avgWordsPerChunk :: enat
  avgSentencesPerChunk :: "nat option"
  complexity :: complexity_stats

record doc_data =
  docId :: string
  chunks :: "string list"
  docMetadata :: "doc_metadata option"
  docEmbeddings :: "text_embedding list"
  addedAt :: real
  sessionId :: string
  docKeywords :: "string list"
  statistics :: doc_statistics

text \<open>
  The three maps of the store. The \<open>TfIdf\<close> instance and \<open>wordVectors\<close> are written at
  ingest and read by no operation, and are left out. Times are milliseconds since the
  epoch; \<open>new Date()\<close> and \<open>Date.now()\<close> are the parameter \<open>now\<close>.
\<close>

record database =
  documents :: "(string \<times> doc_data) list"
  embeddings :: "(string \<times> chunk_entry) list"
  sessionDocuments :: "(string \<times> string list) list"

definition map_has :: "('k \<times> 'v) list \<Rightarrow> 'k \<Rightarrow> bool" where
  "map_has m k = (k \<in> set (map fst m))"

primrec map_set :: "('k \<times> 'v) list \<Rightarrow> 'k \<Rightarrow> 'v \<Rightarrow> ('k \<times> 'v) list" where
  "map_set [] k v = [(k, v)]"
| "map_set (e # es) k v = (if fst e = k then (k, v) # es else e # map_set es k v)"

definition map_delete :: "('k \<times> 'v) list \<Rightarrow> 'k \<Rightarrow> ('k \<times> 'v) list" where
  "map_delete m k = filter (\<lambda>e. fst e \<noteq> k) m"

text \<open>\<open>this.sessionDocuments.get(sessionId) || []\<close>.\<close>

definition session_docs :: "(string \<times> string list) list \<Rightarrow> string \<Rightarrow> string list" where
  "session_docs m k = (case map_of m k of Some ds \<Rightarrow> ds | None \<Rightarrow> [])"

definition round_div :: "nat \<Rightarrow> nat \<Rightarrow> nat" where
  "round_div a b = nat \<lfloor>real a / real b + 1 / 2\<rfloor>"

definition calculateComplexity :: "string \<Rightarrow> complexity_stats" where
  "calculateComplexity t =
     (let words = split_run is_space False [] t;
          avgWordLength = real (sum_list (map length words)) / real (length words);
          uniqueWords = length (uniq (map toLowerCase words));
          lexicalDiversity = real uniqueWords / real (length words)
      in \<lparr> complAvgWordLength = math_round (avgWordLength * 100) / 100,
           lexicalDiversity = math_round (lexicalDiversity * 100) / 100,
           readabilityScore = max 0 (min 100 ((100 - avgWordLength * 5) + lexicalDiversity * 30)) \<rparr>)"

definition calculateDocumentStatistics :: "string list \<Rightarrow> doc_statistics" where
  "calculateDocumentStatistics cs =
     (let totalText = join '' '' cs;
          words = split_run is_space False [] totalText;
          sentences = filter (\<lambda>s. trim s \<noteq> [])
                        (split_run (\<lambda>c. c \<in> set ''.!?'') False [] totalText)
      in \<lparr> totalChunks = length cs,
           totalWords = length words,
           totalSentences = length sentences,
           avgWordsPerChunk =
             (if cs = [] then \<infinity> else enat (round_div (length words) (length cs))),
           avgSentencesPerChunk =
             (if cs = [] then None else Some (round_div (length sentences) (length cs))),
           complexity = calculateComplexity totalText \<rparr>)"


text \<open>
  \<open>addDocument\<close>, for chunks given as strings. Nothing in its \<open>try\<close> block raises, so it
  returns the new store. The chunk of index \<open>i\<close> is stored under the key
  \<open>documentId_i\<close>.
\<close>

definition chunkId :: "string \<Rightarrow> nat \<Rightarrow> string" where
  "chunkId dId index = dId @ ''_'' @ show_nat index"

definition addDocument ::
  "'z text_libs_scheme \<Rightarrow> real \<Rightarrow> database \<Rightarrow> string \<Rightarrow> string list \<Rightarrow> doc_metadata option \<Rightarrow>
   string \<Rightarrow> database" where
  "addDocument L now db dId chunkTexts meta sId =
     (let embs = createEnhancedEmbeddings L chunkTexts;
          docData = \<lparr> docId = dId, chunks = chunkTexts, docMetadata = meta,
                      docEmbeddings = embs, addedAt = now, sessionId = sId,
                      docKeywords = extractDocumentKeywords L (join '' '' chunkTexts),
                      statistics = calculateDocumentStatistics chunkTexts \<rparr>;
          docs1 = map_set (documents db) dId docData;
          sess0 = (if map_has (sessionDocuments db) sId then sessionDocuments db
                   else map_set (sessionDocuments db) sId []);
          sess1 = map_set sess0 sId (session_docs sess0 sId @ [dId]);
          embs1 = foldl (\<lambda>m (index, chunk).
                     map_set m (chunkId dId index)
                       \<lparr> documentId = dId, chunkIndex = index, chunkText = chunk,
                         metadata = meta, embedding = embs ! index,
                         chunkKeywords = extractChunkKeywords L chunk,
                         vectors = createWordVectors L chunk \<rparr>)
                    (embeddings db) (zip [0 ..< length chunkTexts] chunkTexts)
      in \<lparr> documents = docs1, embeddings = embs1, sessionDocuments = sess1 \<rparr>)"

subsection \<open>Search\<close>

record search_result = chunk_entry +
  similarity :: real
  score :: real

text \<open>\<open>{...embedding, similarity: similarity, score: similarity}\<close>.\<close>

definition withSimilarity :: "chunk_entry \<Rightarrow> real \<Rightarrow> search_result" where
  "withSimilarity emb sim =
     \<lparr> documentId = documentId emb, chunkIndex = chunkIndex emb, chunkText = chunkText emb,
       metadata = metadata emb, embedding = embedding emb, chunkKeywords = chunkKeywords emb,
       vectors = vectors emb, similarity = sim, score = sim \<rparr>"

text \<open>
  \<open>semanticSearch\<close>. \<open>sId\<close> and \<open>dIds\<close> are \<open>None\<close> for \<open>null\<close>; the empty string is falsy,
  an empty array is not. The \<open>try\<close> block raises on no string query, so the function is
  its \<open>try\<close> block; the handler's \<open>fallbackTextSearch\<close> follows as a function of its
  own. \<open>sort\<close> is stable and the comparator orders by decreasing similarity.
\<close>

definition semanticSearch ::
  "'z text_libs_scheme \<Rightarrow> database \<Rightarrow> string \<Rightarrow> string option \<Rightarrow> int \<Rightarrow> string list option \<Rightarrow>
   search_result list" where
  "semanticSearch L db query sId limit dIds =
     (let queryEmbedding = createTextEmbedding L query;
          all_embs = map snd (embeddings db);
          by_session =
            (case sId of
               Some s \<Rightarrow>
                 (if s \<noteq> [] \<and> map_has (sessionDocuments db) s
                  then filter (\<lambda>emb. documentId emb \<in> set (session_docs (sessionDocuments db) s))
                         all_embs
                  else all_embs)
             | None \<Rightarrow> all_embs);
          embeddingsToSearch =
            (case dIds of
               Some ds \<Rightarrow> filter (\<lambda>emb. documentId emb \<in> set ds) by_session
             | None \<Rightarrow> by_session);
          scored = map (\<lambda>emb. (emb, calculateEnhancedSimilarity queryEmbedding (embedding emb)))
                     embeddingsToSearch;
          results = map (\<lambda>(emb, sim). withSimilarity emb sim)
                      (filter (\<lambda>(emb, sim). sim > 0.1) scored)
      in slice0 (sort_key (\<lambda>r. - similarity r) results) limit)"

definition searchInDocuments ::
  "'z text_libs_scheme \<Rightarrow> database \<Rightarrow> string \<Rightarrow> string list option \<Rightarrow> string option \<Rightarrow> int \<Rightarrow>
   search_result list" where
  "searchInDocuments L db query dIds sId limit = semanticSearch L db query sId limit dIds"

subsection \<open>The text-search fallback\<close>

record fallback_result = chunk_core +
  fbSimilarity :: real
  fbScore :: real

text \<open>
  The score of one chunk. When no word of the query is longer than two characters the
  word-match quotient is \<open>0 / 0\<close>, the score is \<open>NaN\<close> (\<open>None\<close>) and the comparison
  \<open>score > 0.1\<close> fails.
\<close>

definition fallbackChunkScore :: "'z text_libs_scheme \<Rightarrow> string \<Rightarrow> string \<Rightarrow> real option" where
  "fallbackChunkScore L query chunk =
     (let queryLower = toLowerCase query;
          queryWords = filter (\<lambda>w. length w > 2) (split_ws queryLower);
          chunkLower = toLowerCase chunk;
          s1 = (if includes_str chunkLower queryLower then 0.8 else 0);
          matchingWords = filter (\<lambda>w. includes_str chunkLower w) queryWords
      in if queryWords = [] then None
         else
           (let s2 = s1 + real (length matchingWords) / real (length queryWords) * 0.6;
                stringSim = compareTwoStrings L queryLower chunkLower;
                s3 = s2 + stringSim * 0.3;
                s4 = (if length matchingWords > 1 then s3 + 0.2 else s3)
            in Some s4))"

definition fallbackDocResults :: "'z text_libs_scheme \<Rightarrow> string \<Rightarrow> doc_data \<Rightarrow> fallback_result list" where
  "fallbackDocResults L query doc =
     concat (map (\<lambda>(index, chunk).
                    (case fallbackChunkScore L query chunk of
                       Some sc \<Rightarrow>
                         (if sc > 0.1
                          then [\<lparr> documentId = docId doc, chunkIndex = index, chunkText = chunk,
                                   metadata = docMetadata doc, fbSimilarity = min sc 1.0,
                                   fbScore = min sc 1.0 \<rparr>]
                          else [])
                     | None \<Rightarrow> []))
               (zip [0 ..< length (chunks doc)] (chunks doc)))"


subsection \<open>Cross-document search\<close>







subsection \<open>Context assembly\<close>

record context_source =
  srcDocumentId :: string
  srcFilename :: string
  srcSimilarity :: real
  snippet :: string
  srcKeywords :: "string list"

record context_result =
  contextText :: string
  sources :: "context_source list"
  error :: "string option"
  totalResults :: "nat option"
  confidence :: "real option"

definition makeSource :: "search_result \<Rightarrow> context_source" where
  "makeSource r =
     \<lparr> srcDocumentId = documentId r,
       srcFilename = (case metadata r of
                        Some m \<Rightarrow> (if filename m = [] then ''Unknown'' else filename m)
                      | None \<Rightarrow> ''Unknown''),
       srcSimilarity = math_round (similarity r * 100) / 100,
       snippet = take 150 (chunkText r) @ ''...'',
       srcKeywords = take 5 (chunkKeywords r) \<rparr>"

text \<open>
  The loop of \<open>getRelevantContext\<close> over the ranked results, on the state
  \<open>(contextText, tokenCount, sources)\<close>; \<open>break\<close> returns the state reached.
\<close>

fun assembleContext ::
  "real \<Rightarrow> search_result list \<Rightarrow> string \<times> real \<times> context_source list \<Rightarrow>
   string \<times> real \<times> context_source list" where
  "assembleContext maxTokens [] st = st"
| "assembleContext maxTokens (r # rs) (ctx, tokenCount, srcs) =
     (let textTokens = real (length (chunkText r)) * 0.25
      in if tokenCount + textTokens > maxTokens then (ctx, tokenCount, srcs)
         else assembleContext maxTokens rs
                (ctx @ chunkText r @ [CHR 0x0A, CHR 0x0A], tokenCount + textTokens,
                 srcs @ [makeSource r]))"

definition calculateContextConfidence :: "search_result list \<Rightarrow> real" where
  "calculateContextConfidence results =
     (case results of
        [] \<Rightarrow> 0
      | r # rs \<Rightarrow>
          (let avgSim = sum_list (map similarity results) / real (length results);
               topSimilarity = similarity r;
               resultsCount = min (real (length results) / 10) 1
           in min (avgSim * 0.5 + topSimilarity * 0.3 + resultsCount * 0.2) 1.0))"

definition getRelevantContext ::
  "'z text_libs_scheme \<Rightarrow> database \<Rightarrow> string \<Rightarrow> string option \<Rightarrow> real \<Rightarrow> context_result" where
  "getRelevantContext L db query sId maxTokens =
     (let results = semanticSearch L db query sId 20 None
      in if results = []
         then \<lparr> contextText = [], sources = [],
                error = Some ''No documents found for this session'',
                totalResults = None, confidence = None \<rparr>
         else
           (case assembleContext maxTokens results ([], 0, []) of
              (ctx, tokenCount, srcs) \<Rightarrow>
                \<lparr> contextText = trim ctx, sources = take 10 srcs, error = None,
                  totalResults = Some (length results),
                  confidence = Some (calculateContextConfidence results) \<rparr>))"

text \<open>
  The results whose text the loop appends: the ranked results up to, and without, the
  first one that would take the running count above the budget.
\<close>

fun includedResults :: "real \<Rightarrow> search_result list \<Rightarrow> real \<Rightarrow> search_result list" where
  "includedResults maxTokens [] tokenCount = []"
| "includedResults maxTokens (r # rs) tokenCount =
     (let textTokens = real (length (chunkText r)) * 0.25
      in if tokenCount + textTokens > maxTokens then []
         else r # includedResults maxTokens rs (tokenCount + textTokens))"

subsection \<open>Session statistics and deletion\<close>


text \<open>\<open>Math.ceil(chunk.length * 0.25)\<close>: a quarter of a length is exact in binary.\<close>

definition chunkTokens :: "string \<Rightarrow> nat" where
  "chunkTokens chunk = nat \<lceil>real (length chunk) * 0.25\<rceil>"



text \<open>
  \<open>deleteSession\<close>: for each document id of the session, in order, the document is
  deleted and so is every embedding whose key starts with the id followed by an
  underscore; then the session's entry is deleted.
\<close>

definition deleteDocument :: "database \<Rightarrow> string \<Rightarrow> database" where
  "deleteDocument db dId =
     db \<lparr> documents := map_delete (documents db) dId,
          embeddings := filter (\<lambda>e. \<not> startsWith (fst e) (dId @ ''_'')) (embeddings db) \<rparr>"

definition deleteSession :: "database \<Rightarrow> string \<Rightarrow> database" where
  "deleteSession db sId =
     (let sessionDocs = session_docs (sessionDocuments db) sId;
          db1 = foldl deleteDocument db sessionDocs
      in db1 \<lparr> sessionDocuments := map_delete (sessionDocuments db1) sId \<rparr>)"

subsection \<open>Sample data\<close>

text \<open>
  Stand-ins for the libraries on the words of the examples below: a stemmer that
  leaves a word as it is (as the Porter stemmer does on each word used here), a
  stopword filter over a short list, a keyword extractor that returns the distinct
  lower-case words outside that list, and a string comparison that tells equal strings
  from different ones. \<open>failing_libs\<close> is the same with a keyword extractor that throws.
\<close>

definition sample_stopwords :: "string list" where
  "sample_stopwords = [''a'', ''an'', ''and'', ''the'', ''is'', ''are'', ''of'', ''in'', ''to'']"

definition sample_libs :: text_libs where
  "sample_libs =
     \<lparr> stem = (\<lambda>w. w),
       removeStopwords = filter (\<lambda>w. toLowerCase w \<notin> set sample_stopwords),
       keyword_extract =
         (\<lambda>t. Some (uniq (filter (\<lambda>w. w \<noteq> [] \<and> w \<notin> set sample_stopwords)
                             (split_ws (preprocessText t))))),
       compareTwoStrings = (\<lambda>a b. if a = b then 1 else 0) \<rparr>"


definition empty_db :: database where
  "empty_db = \<lparr> documents = [], embeddings = [], sessionDocuments = [] \<rparr>"

text \<open>One document of two chunks, ingested at time 0 under the session \<open>s1\<close>.\<close>

definition tools_db :: database where
  "tools_db =
     addDocument sample_libs 0 empty_db ''d1'' [''jenkins docker'', ''jenkins docker''] None ''s1''"

text \<open>The features of the text \<open>jenkins docker\<close> under the stand-in libraries.\<close>

definition tools_features :: text_embedding where
  "tools_features =
     \<lparr> tfidf = [(''jenkins'', 1), (''docker'', 1)],
       wordFreq = [(''jenkins'', 1), (''docker'', 1)],
       semantic = \<lparr> hasQuestions = False, hasNumbers = False, hasDefinitions = False,
                    hasExamples = False, hasComparisons = False, hasProcess = False,
                    hasCausal = False, sentiment = 0 \<rparr>,
       embKeywords = [''jenkins'', ''docker''], textLength = 14, wordCount = 2,
       avgWordLength = 13 / 2 \<rparr>"

text \<open>The entry of the chunk of index \<open>i\<close> of that document in the embeddings map.\<close>

definition tools_chunk :: "nat \<Rightarrow> chunk_entry" where
  "tools_chunk i =
     \<lparr> documentId = ''d1'', chunkIndex = i, chunkText = ''jenkins docker'', metadata = None,
       embedding = tools_features, chunkKeywords = [''jenkins'', ''docker''],
       vectors = [(''jenkins'', 1), (''docker'', 1)] \<rparr>"

text \<open>The record of that document in the documents map.\<close>

definition tools_doc :: doc_data where
  "tools_doc =
     \<lparr> docId = ''d1'', chunks = [''jenkins docker'', ''jenkins docker''], docMetadata = None,
       docEmbeddings = [tools_features, tools_features], addedAt = 0, sessionId = ''s1'',
       docKeywords = [''jenkins'', ''docker''],
       statistics =
         \<lparr> totalChunks = 2, totalWords = 4, totalSentences = 1, avgWordsPerChunk = 2,
           avgSentencesPerChunk = Some 1,
           complexity = \<lparr> complAvgWordLength = 13 / 2, lexicalDiversity = 1 / 2,
                          readabilityScore = 165 / 2 \<rparr> \<rparr> \<rparr>"

text \<open>
  Two documents under two sessions; the id of the second one starts with the id of
  the first one and an underscore.
\<close>

definition prefix_db :: database where
  "prefix_db =
     addDocument sample_libs 0
       (addDocument sample_libs 0 empty_db ''a'' [''jenkins''] None ''s1'')
       ''a_b'' [''docker''] None ''s2''"

text \<open>
  The features of a query without sentiment words, and of a chunk that repeats the
  word \<open>bad\<close> thirty times.
\<close>

definition no_flags :: semantic_vec where
  "no_flags =
     \<lparr> hasQuestions = False, hasNumbers = False, hasDefinitions = False, hasExamples = False,
       hasComparisons = False, hasProcess = False, hasCausal = False, sentiment = 0 \<rparr>"




section \<open>Properties\<close>

subsection \<open>Sets, slices and sums\<close>










subsection \<open>Bounds of the sub-scores\<close>









lemma enhanced_eq:
  "calculateEnhancedSimilarity q d =
     calculateTfidfSimilarity (tfidf q) (tfidf d) * 0.4 +
     calculateTfidfSimilarity (wordFreq q) (wordFreq d) * 0.3 +
     calculateKeywordSimilarity (embKeywords q) (embKeywords d) * 0.2 +
     calculateSemanticSimilarity (semantic q) (semantic d) * 0.1"
  by (simp add: calculateEnhancedSimilarity_def calculateVectorSimilarity_def Let_def)



lemma sem_no_flags: "calculateSemanticSimilarity no_flags no_flags = 1"
  by (simp add: calculateSemanticSimilarity_def flag_list_def no_flags_def)




subsection \<open>Scores without lexical overlap\<close>




subsection \<open>The sample store\<close>

text \<open>
  What ingesting the sample document produces, and the score of the query
  \<open>jenkins docker\<close> against its chunks.
\<close>

lemma tools_embeddings:
  "embeddings tools_db = [(''d1_0'', tools_chunk 0), (''d1_1'', tools_chunk 1)]"
  by code_simp


lemma tools_sessions: "sessionDocuments tools_db = [(''s1'', [''d1''])]"
  by code_simp

lemma tools_query: "createTextEmbedding sample_libs ''jenkins docker'' = tools_features"
  by code_simp

lemma tools_tfidf:
  "calculateTfidfSimilarity [(''jenkins'', Suc 0), (''docker'', Suc 0)]
     [(''jenkins'', Suc 0), (''docker'', Suc 0)] = 1"
  by (simp add: calculateTfidfSimilarity_def uniq_def vec_get_def)

lemma tools_keywords:
  "calculateKeywordSimilarity [''jenkins'', ''docker''] [''jenkins'', ''docker''] = 1"
  by (simp add: calculateKeywordSimilarity_def uniq_def toLowerCase_def toLowerChar_def)

lemma tools_score: "calculateEnhancedSimilarity tools_features tools_features = 1"
  by (simp add: enhanced_eq tools_features_def tools_tfidf tools_keywords
      calculateSemanticSimilarity_def flag_list_def)

lemma similarity_withSimilarity [simp]: "similarity (withSimilarity emb sim) = sim"
  by (simp add: withSimilarity_def)

lemma tools_search:
  assumes "sId = None \<or> sId = Some ''s1'' \<or> sId = Some ''s2''"
  shows "semanticSearch sample_libs tools_db ''jenkins docker'' sId limit None =
         slice0 [withSimilarity (tools_chunk 0) 1, withSimilarity (tools_chunk 1) 1] limit"
  using assms
  by (auto simp: semanticSearch_def tools_embeddings tools_sessions tools_query tools_score
      map_has_def session_docs_def tools_chunk_def)




subsection \<open>Search: limit and threshold\<close>






subsection \<open>Unregistered sessions\<close>

lemma map_has_delete: "\<not> map_has (map_delete m k) k"
  by (auto simp: map_has_def map_delete_def)

lemma deleteSession_unregisters: "\<not> map_has (sessionDocuments (deleteSession db s)) s"
  by (simp add: deleteSession_def Let_def map_has_delete)

text \<open>
  Claim C2, as amended. A session id that is not registered does not filter at all:
  the search with that id returns what the search without a session id returns, so
  the chunks of every session are candidates. This holds in particular right after
  \<open>deleteSession\<close> of that id. No error is raised.
\<close>

theorem unregistered_session_search:
  "(\<not> map_has (sessionDocuments db) s \<longrightarrow>
      semanticSearch L db q (Some s) limit dIds = semanticSearch L db q None limit dIds) \<and>
   semanticSearch L (deleteSession db s) q (Some s) limit dIds =
     semanticSearch L (deleteSession db s) q None limit dIds"
proof -
  have "semanticSearch L d q (Some s) limit dIds = semanticSearch L d q None limit dIds"
    if "\<not> map_has (sessionDocuments d) s" for d
    using that unfolding semanticSearch_def by simp
  then show ?thesis using deleteSession_unregisters by blast
qed

text \<open>
  An instance: the session \<open>s2\<close> is not registered in the sample store.
\<close>

theorem unregistered_session_search_witness:
  "\<not> map_has (sessionDocuments tools_db) ''s2'' \<and>
   semanticSearch sample_libs tools_db ''jenkins docker'' (Some ''s2'') 10 None =
     semanticSearch sample_libs tools_db ''jenkins docker'' None 10 None \<and>
   semanticSearch sample_libs (deleteSession tools_db ''s2'') ''jenkins docker'' (Some ''s2'') 10 None =
     semanticSearch sample_libs (deleteSession tools_db ''s2'') ''jenkins docker'' None 10 None"
proof -
  have h: "\<not> map_has (sessionDocuments tools_db) ''s2''"
    by (simp add: tools_sessions map_has_def)
  show ?thesis
    using h unregistered_session_search[of tools_db "''s2''" sample_libs "''jenkins docker''" 10 None]
    by blast
qed

text \<open>
  Claim C2 as stated fails: in the sample store, whose only session is \<open>s1\<close>, the
  search with the unregistered session id \<open>s2\<close> returns chunks of the document of
  \<open>s1\<close>.
\<close>

theorem unregistered_session_search_counterexample:
  "\<not> map_has (sessionDocuments tools_db) ''s2'' \<and>
   semanticSearch sample_libs tools_db ''jenkins docker'' (Some ''s2'') 10 None \<noteq> []"
  by (simp add: tools_sessions map_has_def tools_search slice0_def)

subsection \<open>Session statistics\<close>




subsection \<open>Feature extraction when the keyword extractor fails\<close>




subsection \<open>Context assembly\<close>

lemma assembleContext_included:
  "assembleContext maxTokens results (ctx, tok, srcs) =
     (ctx @ concat (map (\<lambda>r. chunkText r @ [CHR 0x0A, CHR 0x0A]) (includedResults maxTokens results tok)),
      tok + sum_list (map (\<lambda>r. real (length (chunkText r)) / 4) (includedResults maxTokens results tok)),
      srcs @ map makeSource (includedResults maxTokens results tok))"
proof (induction results arbitrary: ctx tok srcs)
  case Nil
  then show ?case by simp
next
  case (Cons r rs)
  show ?case
  proof (cases "tok + real (length (chunkText r)) * 0.25 > maxTokens")
    case True
    then show ?thesis by simp
  next
    case False
    then show ?thesis by (simp add: Cons.IH Let_def)
  qed
qed

lemma includedResults_prefix: "\<exists>rest. results = includedResults maxTokens results tok @ rest"
  by (induction results arbitrary: tok) (auto simp: Let_def)

lemma includedResults_budget:
  "tok \<le> maxTokens \<Longrightarrow>
   tok + sum_list (map (\<lambda>r. real (length (chunkText r)) / 4) (includedResults maxTokens results tok))
     \<le> maxTokens"
proof (induction results arbitrary: tok)
  case Nil
  then show ?case by simp
next
  case (Cons r rs)
  show ?case
  proof (cases "tok + real (length (chunkText r)) * 0.25 > maxTokens")
    case True
    then show ?thesis using Cons.prems by simp
  next
    case False
    then have "tok + real (length (chunkText r)) / 4 \<le> maxTokens" by simp
    from Cons.IH[OF this] False show ?thesis by (simp add: Let_def add.assoc)
  qed
qed

lemma tools_included:
  "includedResults 7 (semanticSearch sample_libs tools_db ''jenkins docker'' (Some ''s1'') 20 None) 0 =
     [withSimilarity (tools_chunk 0) 1, withSimilarity (tools_chunk 1) 1]"
  by (simp add: tools_search slice0_def withSimilarity_def tools_chunk_def Let_def)

text \<open>
  Claim C5, as amended. The loop estimates a result at a quarter of its length,
  without rounding, and stops at the first result that would take the running sum
  above the budget. For a budget that is not negative: the context is the
  concatenation of the whole texts of the included results (each followed by an empty
  line, the ends trimmed), the included results are an initial segment of the ranked
  results, and the sum of their lengths divided by four is at most the budget.
\<close>

theorem context_within_budget:
  assumes "0 \<le> maxTokens"
  shows "(let results = semanticSearch L db q sId 20 None;
              included = includedResults maxTokens results 0
          in contextText (getRelevantContext L db q sId maxTokens) =
               trim (concat (map (\<lambda>r. chunkText r @ [CHR 0x0A, CHR 0x0A]) included)) \<and>
             (\<Sum>r \<leftarrow> included. real (length (chunkText r)) / 4) \<le> maxTokens \<and>
             (\<exists>rest. results = included @ rest))"
proof -
  define results where "results = semanticSearch L db q sId 20 None"
  define included where "included = includedResults maxTokens results 0"
  have a: "contextText (getRelevantContext L db q sId maxTokens) =
             trim (concat (map (\<lambda>r. chunkText r @ [CHR 0x0A, CHR 0x0A]) included))"
  proof (cases "results = []")
    case True
    then show ?thesis
      by (simp add: getRelevantContext_def results_def[symmetric] included_def trim_def)
  next
    case False
    then show ?thesis
      by (simp add: getRelevantContext_def results_def[symmetric] included_def
          assembleContext_included)
  qed
  have b: "(\<Sum>r \<leftarrow> included. real (length (chunkText r)) / 4) \<le> maxTokens"
    using includedResults_budget[OF assms, of results] by (simp add: included_def)
  have c: "\<exists>rest. results = included @ rest"
    unfolding included_def by (rule includedResults_prefix)
  show ?thesis
    unfolding Let_def results_def[symmetric] included_def[symmetric] using a b c by blast
qed

text \<open>
  An instance with a budget of 7 on the sample store.
\<close>

theorem context_within_budget_witness:
  "(0::real) \<le> 7 \<and>
   (let results = semanticSearch sample_libs tools_db ''jenkins docker'' (Some ''s1'') 20 None;
        included = includedResults 7 results 0
    in contextText (getRelevantContext sample_libs tools_db ''jenkins docker'' (Some ''s1'') 7) =
         trim (concat (map (\<lambda>r. chunkText r @ [CHR 0x0A, CHR 0x0A]) included)) \<and>
       (\<Sum>r \<leftarrow> included. real (length (chunkText r)) / 4) \<le> 7 \<and>
       (\<exists>rest. results = included @ rest))"
proof -
  have h: "(0::real) \<le> 7" by simp
  show ?thesis
    using h context_within_budget[OF h, of sample_libs tools_db "''jenkins docker''" "Some ''s1''"]
    by simp
qed

text \<open>
  Claim C5 as stated fails: with a budget of 7 both chunks of the sample document are
  included, 3.5 estimated tokens each, while the lengths divided by four and rounded
  up sum to 8.
\<close>

theorem context_within_budget_counterexample:
  "map chunkText
     (includedResults 7
        (semanticSearch sample_libs tools_db ''jenkins docker'' (Some ''s1'') 20 None) 0) =
     [''jenkins docker'', ''jenkins docker''] \<and>
   contextText (getRelevantContext sample_libs tools_db ''jenkins docker'' (Some ''s1'') 7) =
     ''jenkins docker'' @ [CHR 0x0A, CHR 0x0A] @ ''jenkins docker'' \<and>
   \<not> real (sum_list (map (chunkTokens \<circ> chunkText)
         (includedResults 7
            (semanticSearch sample_libs tools_db ''jenkins docker'' (Some ''s1'') 20 None) 0))) \<le> 7"
proof -
  have a: "map chunkText
     (includedResults 7
        (semanticSearch sample_libs tools_db ''jenkins docker'' (Some ''s1'') 20 None) 0) =
     [''jenkins docker'', ''jenkins docker'']"
    by (simp add: tools_included withSimilarity_def tools_chunk_def)
  have b: "contextText (getRelevantContext sample_libs tools_db ''jenkins docker'' (Some ''s1'') 7) =
     ''jenkins docker'' @ [CHR 0x0A, CHR 0x0A] @ ''jenkins docker''"
    by (simp add: getRelevantContext_def assembleContext_included tools_included)
       (simp add: tools_search slice0_def withSimilarity_def tools_chunk_def trim_def is_space_def)
  have c: "sum_list (map (chunkTokens \<circ> chunkText)
         (includedResults 7
            (semanticSearch sample_libs tools_db ''jenkins docker'' (Some ''s1'') 20 None) 0)) = 8"
    by (simp add: tools_included withSimilarity_def tools_chunk_def chunkTokens_def)
  show ?thesis using a b c by simp
qed

subsection \<open>Phrase matches\<close>

lemma fallbackDocResults_has:
  assumes i: "i < length (chunks doc)"
    and sc: "fallbackChunkScore L q (chunks doc ! i) = Some s" and big: "s > 0.1"
  shows "\<lparr> documentId = docId doc, chunkIndex = i, chunkText = chunks doc ! i,
            metadata = docMetadata doc, fbSimilarity = min s 1.0, fbScore = min s 1.0 \<rparr>
         \<in> set (fallbackDocResults L q doc)"
proof -
  have "(i, chunks doc ! i) \<in> set (zip [0 ..< length (chunks doc)] (chunks doc))"
    using i by (auto simp: in_set_zip intro!: exI[of _ i])
  then show ?thesis
    unfolding fallbackDocResults_def using sc big
    by (auto intro!: bexI[of _ "(i, chunks doc ! i)"])
qed

lemma ai_features:
  "tfidf (createTextEmbedding sample_libs ''AI'') = [(''ai'', 1)] \<and>
   wordFreq (createTextEmbedding sample_libs ''AI'') = [] \<and>
   embKeywords (createTextEmbedding sample_libs ''AI'') = [''ai''] \<and>
   semantic (createTextEmbedding sample_libs ''AI'') = no_flags"
  by code_simp

text \<open>
  Claim C1, as amended. The phrase bonus belongs to the text-search fallback alone.
  There, for a query with at least one word longer than two characters and a chunk
  whose lower-case text contains the lower-case query, the chunk is listed with a
  similarity of at least 0.8, given that the string comparison of the library is not
  negative. The scorer of the primary path has no phrase bonus.
\<close>

theorem fallback_phrase_match:
  assumes words: "filter (\<lambda>w. length w > 2) (split_ws (toLowerCase q)) \<noteq> []"
    and phrase: "includes_str (toLowerCase (chunks doc ! i)) (toLowerCase q)"
    and lib: "0 \<le> compareTwoStrings L (toLowerCase q) (toLowerCase (chunks doc ! i))"
    and i: "i < length (chunks doc)"
  shows "\<exists>r \<in> set (fallbackDocResults L q doc).
           chunkIndex r = i \<and> chunkText r = chunks doc ! i \<and> 0.8 \<le> fbSimilarity r"
proof -
  define c where "c = chunks doc ! i"
  define qw where "qw = filter (\<lambda>w. length w > 2) (split_ws (toLowerCase q))"
  define mw where "mw = filter (\<lambda>w. includes_str (toLowerCase c) w) qw"
  define s where "s = 0.8 + real (length mw) / real (length qw) * 0.6 +
      compareTwoStrings L (toLowerCase q) (toLowerCase c) * 0.3 +
      (if length mw > 1 then 0.2 else 0)"
  have sc: "fallbackChunkScore L q c = Some s"
    using words phrase
    by (simp add: fallbackChunkScore_def Let_def c_def[symmetric] qw_def[symmetric]
        mw_def[symmetric] s_def)
  have "0 \<le> real (length mw) / real (length qw) * 0.6" by simp
  moreover have "0 \<le> compareTwoStrings L (toLowerCase q) (toLowerCase c) * 0.3"
    using lib by (simp add: c_def)
  ultimately have s8: "0.8 \<le> s" unfolding s_def by (simp split: if_splits)
  then have big: "s > 0.1" by simp
  from fallbackDocResults_has[OF i sc[unfolded c_def] big] s8
  show ?thesis by (intro bexI, auto simp: c_def)
qed

text \<open>
  An instance: the query \<open>Jenkins Docker\<close> against the first chunk of the sample
  document.
\<close>

theorem fallback_phrase_match_witness:
  "filter (\<lambda>w. length w > 2) (split_ws (toLowerCase ''Jenkins Docker'')) \<noteq> [] \<and>
   includes_str (toLowerCase (chunks tools_doc ! 0)) (toLowerCase ''Jenkins Docker'') \<and>
   0 \<le> compareTwoStrings sample_libs (toLowerCase ''Jenkins Docker'') (toLowerCase (chunks tools_doc ! 0)) \<and>
   0 < length (chunks tools_doc) \<and>
   (\<exists>r \<in> set (fallbackDocResults sample_libs ''Jenkins Docker'' tools_doc).
      chunkIndex r = 0 \<and> chunkText r = chunks tools_doc ! 0 \<and> 0.8 \<le> fbSimilarity r)"
proof -
  have a: "filter (\<lambda>w. length w > 2) (split_ws (toLowerCase ''Jenkins Docker'')) \<noteq> []"
    by code_simp
  have b: "includes_str (toLowerCase (chunks tools_doc ! 0)) (toLowerCase ''Jenkins Docker'')"
    by code_simp
  have c: "0 \<le> compareTwoStrings sample_libs (toLowerCase ''Jenkins Docker'')
             (toLowerCase (chunks tools_doc ! 0))"
    by (simp add: sample_libs_def)
  have d: "0 < length (chunks tools_doc)"
    by (simp add: tools_doc_def)
  show ?thesis using a b c d fallback_phrase_match[OF a b c d] by blast
qed

text \<open>
  Claim C1 as stated fails on the scoring path: the query \<open>AI\<close> against the chunk
  \<open>AI\<close>, which contains it, scores 0.7. No word is longer than two characters,
  so the word-frequency vectors are empty and that term, of weight 0.3, is 0.
\<close>

theorem fallback_phrase_match_counterexample:
  "''AI'' \<noteq> [] \<and> includes_str (toLowerCase ''AI'') (toLowerCase ''AI'') \<and>
   \<not> 0.8 \<le> calculateEnhancedSimilarity (createTextEmbedding sample_libs ''AI'')
               (createTextEmbedding sample_libs ''AI'')"
proof -
  have a: "includes_str (toLowerCase ''AI'') (toLowerCase ''AI'')" by code_simp
  have t: "calculateTfidfSimilarity [(''ai'', Suc 0)] [(''ai'', Suc 0)] = 1"
    by (simp add: calculateTfidfSimilarity_def uniq_def vec_get_def)
  have w: "calculateTfidfSimilarity [] [] = 0"
    by (simp add: calculateTfidfSimilarity_def)
  have k: "calculateKeywordSimilarity [''ai''] [''ai''] = 1"
    by (simp add: calculateKeywordSimilarity_def uniq_def toLowerCase_def toLowerChar_def)
  have "calculateEnhancedSimilarity (createTextEmbedding sample_libs ''AI'')
          (createTextEmbedding sample_libs ''AI'') = 0.7"
    by (simp add: enhanced_eq ai_features t w k sem_no_flags)
  with a show ?thesis by simp
qed

subsection \<open>Document groups\<close>













subsection \<open>Session deletion\<close>

text \<open>
  What \<open>deleteSession\<close> leaves of the embeddings map: the entries whose key starts
  with no document id of the session followed by an underscore, unchanged and in
  their order.
\<close>

lemma embeddings_foldl_deleteDocument:
  "embeddings (foldl deleteDocument db ds) =
     filter (\<lambda>e. \<forall>d \<in> set ds. \<not> startsWith (fst e) (d @ ''_'')) (embeddings db)"
proof (induction ds arbitrary: db)
  case Nil
  then show ?case by simp
next
  case (Cons d ds)
  have "embeddings (foldl deleteDocument db (d # ds)) =
          filter (\<lambda>e. \<forall>d \<in> set ds. \<not> startsWith (fst e) (d @ ''_''))
            (embeddings (deleteDocument db d))"
    by (simp add: Cons.IH)
  also have "\<dots> = filter (\<lambda>e. \<forall>d \<in> set (d # ds). \<not> startsWith (fst e) (d @ ''_''))
                     (embeddings db)"
    by (auto simp: deleteDocument_def intro: filter_cong)
  finally show ?case .
qed

lemma deleteSession_embeddings:
  "embeddings (deleteSession db s) =
     filter (\<lambda>e. \<forall>d \<in> set (session_docs (sessionDocuments db) s).
                  \<not> startsWith (fst e) (d @ ''_''))
       (embeddings db)"
  by (simp add: deleteSession_def Let_def embeddings_foldl_deleteDocument)

text \<open>
  Claim C10 fails on the code. The document \<open>a_b\<close> is registered under the session
  \<open>s2\<close> only; deleting the session \<open>s1\<close>, which holds the document \<open>a\<close>,
  removes its chunk \<open>a_b_0\<close> as well, because that key starts with \<open>a_\<close>.
  The document \<open>a_b\<close> itself and its registration stay.
\<close>

theorem deleteSession_prefix_collision:
  "session_docs (sessionDocuments prefix_db) ''s1'' = [''a''] \<and>
   map (\<lambda>e. (fst e, documentId (snd e))) (embeddings prefix_db) =
     [(''a_0'', ''a''), (''a_b_0'', ''a_b'')] \<and>
   embeddings (deleteSession prefix_db ''s1'') = [] \<and>
   map fst (documents (deleteSession prefix_db ''s1'')) = [''a_b''] \<and>
   sessionDocuments (deleteSession prefix_db ''s1'') = [(''s2'', [''a_b''])]"
  by code_simp

end
